theory Spec2Isabelle
  imports Complex_Main "HOL-Library.Word"
begin

unbundle bit_operations_syntax

section \<open>Values exchanged by the node\<close>

text \<open>
  Requests, responses and node descriptors of \<^verbatim>\<open>node.py\<close> are what \<^verbatim>\<open>json.loads\<close>
  returns and \<^verbatim>\<open>json.dumps\<close> accepts. A Python \<^verbatim>\<open>str\<close> is represented by the bytes
  that UTF-8 gives its code points, one after the other. A \<^verbatim>\<open>str\<close> may hold an unpaired
  surrogate (\<^verbatim>\<open>json.loads\<close> delivers one for the escape of U+D800); its code point is written
  by the same scheme, in three bytes, although \<^verbatim>\<open>str.encode\<close> refuses it. So every
  \<^verbatim>\<open>str\<close> is a \<open>string\<close>, and concatenation is \<open>@\<close>. \<^verbatim>\<open>None\<close> is \<open>JNull\<close>, and a
  \<^verbatim>\<open>dict\<close> is the list of its items (the keys of a decoded object are distinct;
  \<open>map_of\<close> reads it). A Python \<^verbatim>\<open>float\<close> is a real number, an infinity or NaN.
  Console output is not part of the model.
\<close>

datatype pyfloat = Finite real | PosInf | NegInf | NaN

datatype json =
    JNull
  | JBool bool
  | JInt int
  | JFloat pyfloat
  | JStr string
  | JList "json list"
  | JObj "(string \<times> json) list"

datatype exn = AttributeError | KeyError | TypeError | ValueError | UnicodeEncodeError

text \<open>
  What a call does: it returns a value, raises an exception, or never returns
  (a socket read without timeout on a peer that stays silent).
\<close>

datatype 'a outcome = Returns 'a | Raises exn | Blocks

subsection \<open>Python's operators on these values\<close>

text \<open>\<^verbatim>\<open>bool\<close> is a subclass of \<^verbatim>\<open>int\<close>; an \<^verbatim>\<open>int\<close> is compared with a \<^verbatim>\<open>float\<close> by value.\<close>

fun num_of :: "json \<Rightarrow> pyfloat option" where
  "num_of (JInt i) = Some (Finite (of_int i))"
| "num_of (JBool b) = Some (Finite (if b then 1 else 0))"
| "num_of (JFloat f) = Some f"
| "num_of _ = None"

fun float_lt :: "pyfloat \<Rightarrow> pyfloat \<Rightarrow> bool" where
  "float_lt NaN _ = False"
| "float_lt _ NaN = False"
| "float_lt (Finite a) (Finite b) = (a < b)"
| "float_lt _ NegInf = False"
| "float_lt PosInf _ = False"
| "float_lt _ _ = True"

fun float_eq :: "pyfloat \<Rightarrow> pyfloat \<Rightarrow> bool" where
  "float_eq NaN _ = False"
| "float_eq _ NaN = False"
| "float_eq a b = (a = b)"

definition float_le :: "pyfloat \<Rightarrow> pyfloat \<Rightarrow> bool" where
  "float_le a b = (float_lt a b \<or> float_eq a b)"

definition eq_int :: "json \<Rightarrow> int \<Rightarrow> bool" where
  \<comment> \<open>\<^verbatim>\<open>v == n\<close> for an \<^verbatim>\<open>int\<close> n\<close>
  "eq_int v n = (case num_of v of Some x \<Rightarrow> float_eq x (Finite (of_int n)) | None \<Rightarrow> False)"

definition eq_str :: "json \<Rightarrow> string \<Rightarrow> bool" where
  \<comment> \<open>\<^verbatim>\<open>v == s\<close> for a \<^verbatim>\<open>str\<close> s\<close>
  "eq_str v s = (v = JStr s)"

fun subscript :: "json \<Rightarrow> string \<Rightarrow> exn + json" where
  \<comment> \<open>\<^verbatim>\<open>v[k]\<close> for a \<^verbatim>\<open>str\<close> k\<close>
  "subscript (JObj d) k = (case map_of d k of None \<Rightarrow> Inl KeyError | Some v \<Rightarrow> Inr v)"
| "subscript _ k = Inl TypeError"

definition dict_get :: "(string \<times> json) list \<Rightarrow> string \<Rightarrow> json" where
  \<comment> \<open>\<^verbatim>\<open>d.get(k)\<close>\<close>
  "dict_get d k = (case map_of d k of None \<Rightarrow> JNull | Some v \<Rightarrow> v)"

subsection \<open>Formatting\<close>

text \<open>
  \<^verbatim>\<open>str(n)\<close> of an \<^verbatim>\<open>int\<close>, as an f-string inserts it: decimal digits, with a minus
  sign for a negative number.
\<close>

definition digit_char :: "nat \<Rightarrow> char" where
  "digit_char n = char_of (48 + n)"

fun str_nat :: "nat \<Rightarrow> string" where
  "str_nat n = (if n < 10 then [digit_char n] else str_nat (n div 10) @ [digit_char (n mod 10)])"

declare str_nat.simps [simp del]

definition str_int :: "int \<Rightarrow> string" where
  "str_int i = (if i < 0 then CHR ''-'' # str_nat (nat (- i)) else str_nat (nat i))"

section \<open>Identity: SHA-1 of a byte string as a number\<close>

type_synonym byte = "8 word"
type_synonym u32 = "32 word"

text \<open>
  The bytes that stand for a \<^verbatim>\<open>str\<close> (see the first section). A surrogate code point
  U+D800 to U+DFFF is written \<open>ED\<close>, then a byte from \<open>A0\<close> to \<open>BF\<close>, then a third byte;
  \<open>ED\<close> occurs nowhere else followed by such a byte.
\<close>

definition utf8 :: "string \<Rightarrow> byte list" where
  "utf8 s = map of_char s"

fun has_surrogate :: "string \<Rightarrow> bool" where
  "has_surrogate (a # b # r) =
     (((of_char a :: nat) = 0xED \<and> 0xA0 \<le> (of_char b :: nat) \<and> (of_char b :: nat) \<le> 0xBF)
      \<or> has_surrogate (b # r))"
| "has_surrogate _ = False"

text \<open>
  \<^verbatim>\<open>s.encode()\<close>: the UTF-8 bytes; \<^verbatim>\<open>UnicodeEncodeError\<close> when the string holds a
  surrogate, which UTF-8 does not encode.
\<close>

definition encode :: "string \<Rightarrow> exn + byte list" where
  "encode s = (if has_surrogate s then Inl UnicodeEncodeError else Inr (utf8 s))"

subsection \<open>\<^verbatim>\<open>hashlib.sha1\<close> (FIPS 180-4)\<close>

definition rotl :: "nat \<Rightarrow> u32 \<Rightarrow> u32" where
  "rotl n x = push_bit n x OR drop_bit (32 - n) x"

definition be64 :: "nat \<Rightarrow> byte list" where
  "be64 n = map (\<lambda>s. ucast (drop_bit s (of_nat n :: 64 word))) [56, 48, 40, 32, 24, 16, 8, 0]"

definition sha1_pad :: "byte list \<Rightarrow> byte list" where
  "sha1_pad m =
     m @ [0x80] @ replicate ((119 - length m mod 64) mod 64) 0 @ be64 (8 * length m)"

fun be32 :: "byte list \<Rightarrow> u32 list" where
  "be32 (a # b # c # d # r) =
     (push_bit 24 (ucast a) OR push_bit 16 (ucast b) OR push_bit 8 (ucast c) OR ucast d) # be32 r"
| "be32 _ = []"

definition sha1_blocks :: "u32 list \<Rightarrow> u32 list list" where
  "sha1_blocks ws = map (\<lambda>i. take 16 (drop (16 * i) ws)) [0..<length ws div 16]"

fun schedule :: "nat \<Rightarrow> u32 list \<Rightarrow> u32 list" where
  "schedule 0 w = w"
| "schedule (Suc n) w =
     (let t = length w
      in schedule n (w @ [rotl 1 (w ! (t - 3) XOR w ! (t - 8) XOR w ! (t - 14) XOR w ! (t - 16))]))"

definition sha1_f :: "nat \<Rightarrow> u32 \<Rightarrow> u32 \<Rightarrow> u32 \<Rightarrow> u32" where
  "sha1_f t b c d =
     (if t < 20 then (b AND c) OR (NOT b AND d)
      else if t < 40 then b XOR c XOR d
      else if t < 60 then (b AND c) OR (b AND d) OR (c AND d)
      else b XOR c XOR d)"

definition sha1_k :: "nat \<Rightarrow> u32" where
  "sha1_k t =
     (if t < 20 then 0x5A827999
      else if t < 40 then 0x6ED9EBA1
      else if t < 60 then 0x8F1BBCDC
      else 0xCA62C1D6)"

type_synonym sha1_state = "u32 \<times> u32 \<times> u32 \<times> u32 \<times> u32"

fun sha1_round :: "sha1_state \<Rightarrow> nat \<times> u32 \<Rightarrow> sha1_state" where
  "sha1_round (a, b, c, d, e) (t, w) =
     (rotl 5 a + sha1_f t b c d + e + sha1_k t + w, a, rotl 30 b, c, d)"

fun sha1_compress :: "sha1_state \<Rightarrow> u32 list \<Rightarrow> sha1_state" where
  "sha1_compress (h0, h1, h2, h3, h4) block =
     (case foldl sha1_round (h0, h1, h2, h3, h4) (zip [0..<80] (schedule 64 block)) of
        (a, b, c, d, e) \<Rightarrow> (h0 + a, h1 + b, h2 + c, h3 + d, h4 + e))"

definition bytes32 :: "u32 \<Rightarrow> byte list" where
  "bytes32 w = [ucast (drop_bit 24 w), ucast (drop_bit 16 w), ucast (drop_bit 8 w), ucast w]"

definition sha1 :: "byte list \<Rightarrow> byte list" where
  "sha1 m =
     (case foldl sha1_compress (0x67452301, 0xEFCDAB89, 0x98BADCFE, 0x10325476, 0xC3D2E1F0)
             (sha1_blocks (be32 (sha1_pad m))) of
        (h0, h1, h2, h3, h4) \<Rightarrow> bytes32 h0 @ bytes32 h1 @ bytes32 h2 @ bytes32 h3 @ bytes32 h4)"

subsection \<open>\<^verbatim>\<open>hexdigest()\<close> and \<^verbatim>\<open>int(s, 16)\<close>\<close>

definition hexchar :: "nat \<Rightarrow> char" where
  "hexchar n = (if n < 10 then char_of (48 + n) else char_of (87 + n))"

definition hexdigest :: "byte list \<Rightarrow> string" where
  "hexdigest bs = concat (map (\<lambda>b. [hexchar (unat b div 16), hexchar (unat b mod 16)]) bs)"

definition hexval :: "char \<Rightarrow> nat option" where
  "hexval c =
     (let n = (of_char c :: nat)
      in if 48 \<le> n \<and> n \<le> 57 then Some (n - 48)
         else if 97 \<le> n \<and> n \<le> 102 then Some (n - 87)
         else if 65 \<le> n \<and> n \<le> 70 then Some (n - 55)
         else None)"

fun hex_digits :: "string \<Rightarrow> int \<Rightarrow> int option" where
  "hex_digits [] acc = Some acc"
| "hex_digits (c # cs) acc =
     (case hexval c of None \<Rightarrow> None | Some d \<Rightarrow> hex_digits cs (16 * acc + int d))"

text \<open>
  \<^verbatim>\<open>int(s, 16)\<close> on a string of hexadecimal digits; the empty string and a string with
  another character raise \<^verbatim>\<open>ValueError\<close>. (The signs, prefixes, underscores and blanks
  that \<^verbatim>\<open>int\<close> also reads do not occur in a digest and are left out.)
\<close>

definition py_int16 :: "string \<Rightarrow> exn + int" where
  "py_int16 s =
     (if s = [] then Inl ValueError
      else case hex_digits s 0 of None \<Rightarrow> Inl ValueError | Some n \<Rightarrow> Inr n)"

definition generate_id :: "string \<Rightarrow> int \<Rightarrow> exn + int" where
  "generate_id addr prt =
     (case encode (addr @ '':'' @ str_int prt) of
        Inl e \<Rightarrow> Inl e
      | Inr node_str \<Rightarrow>
         (case py_int16 (hexdigest (sha1 node_str)) of
            Inl e \<Rightarrow> Inl e
          | Inr n \<Rightarrow> Inr (n mod 2 ^ 160)))"

text \<open>
  The expression \<^verbatim>\<open>int(hashlib.sha1(key.encode()).hexdigest(), 16) % (2**160)\<close> of
  \<^verbatim>\<open>insert\<close>, \<^verbatim>\<open>query\<close> and \<^verbatim>\<open>delete\<close>. Only a \<^verbatim>\<open>str\<close> has \<^verbatim>\<open>encode\<close>.
\<close>

definition hashed_key :: "json \<Rightarrow> exn + int" where
  "hashed_key key =
     (case key of
        JStr k \<Rightarrow>
          (case encode k of
             Inl e \<Rightarrow> Inl e
           | Inr b \<Rightarrow>
              (case py_int16 (hexdigest (sha1 b)) of
                 Inl e \<Rightarrow> Inl e
               | Inr n \<Rightarrow> Inr (n mod 2 ^ 160)))
      | _ \<Rightarrow> Inl AttributeError)"

subsection \<open>The identifier as the specification words it\<close>

text \<open>
  The specification's NodeID / HashedKey: the SHA-1 digest of a byte string, read as an
  unsigned integer (most significant byte first) and reduced modulo \<open>2 ^ 160\<close>.
  \<open>generate_id\<close> and \<open>hashed_key\<close> above follow the code, through the hexadecimal
  string; they are compared with this one below.
\<close>

fun unsigned_be :: "byte list \<Rightarrow> int" where
  "unsigned_be [] = 0"
| "unsigned_be (b # bs) = uint b * 256 ^ length bs + unsigned_be bs"

definition digest_id :: "byte list \<Rightarrow> int" where
  "digest_id m = unsigned_be (sha1 m) mod 2 ^ 160"

section \<open>The node\<close>

text \<open>
  The fields of \<^verbatim>\<open>ChordNode\<close>. The attribute \<^verbatim>\<open>successor\<close> exists only once it has
  been assigned: \<open>None\<close> is the missing attribute. \<^verbatim>\<open>predecessor\<close> starts as
  \<^verbatim>\<open>None\<close>, which is \<open>JNull\<close>.
\<close>

record node =
  ip :: string
  port :: int
  node_id :: int
  data_store :: "int \<rightharpoonup> json"
  predecessor :: json
  successor :: "json option"

text \<open>
  What the program takes from outside itself: the round trip over a socket inside
  \<^verbatim>\<open>send_request\<close>, and Python's \<^verbatim>\<open>str()\<close> of floats, lists and dicts in a
  formatted message.
\<close>

datatype exchange = Reply json | Failure string | NoReply

record env =
  transmit :: "json \<Rightarrow> json \<Rightarrow> json \<Rightarrow> exchange"
  py_repr :: "json \<Rightarrow> string"

definition py_str :: "env \<Rightarrow> json \<Rightarrow> string" where
  "py_str e v =
     (case v of
        JNull \<Rightarrow> ''None''
      | JBool b \<Rightarrow> (if b then ''True'' else ''False'')
      | JInt i \<Rightarrow> str_int i
      | JStr s \<Rightarrow> s
      | _ \<Rightarrow> py_repr e v)"

text \<open>
  \<^verbatim>\<open>send_request\<close>: every exception of the \<^verbatim>\<open>try\<close> block (connect, send, receive,
  decode) becomes an error response; \<open>None\<close> is the call that never returns.
\<close>

definition send_request :: "env \<Rightarrow> json \<Rightarrow> json \<Rightarrow> json \<Rightarrow> json option" where
  "send_request e addr prt request =
     (case transmit e addr prt request of
        Reply response \<Rightarrow> Some response
      | Failure msg \<Rightarrow> Some (JObj [(''status'', JStr ''error''), (''message'', JStr msg)])
      | NoReply \<Rightarrow> None)"

subsection \<open>Ring operations\<close>

definition find_successor :: "env \<Rightarrow> node \<Rightarrow> json \<Rightarrow> json outcome" where
  "find_successor e st target =
     (case successor st of
        None \<Rightarrow> Raises AttributeError
      | Some succ \<Rightarrow>
         (case subscript succ ''node_id'' of
            Inl x \<Rightarrow> Raises x
          | Inr sid \<Rightarrow>
             if eq_int sid (node_id st)
             then Returns (JObj [(''status'', JStr ''success''), (''successor'', succ)])
             else
              (let forward =
                 (case subscript succ ''ip'' of
                    Inl x \<Rightarrow> Raises x
                  | Inr addr \<Rightarrow>
                     (case subscript succ ''port'' of
                        Inl x \<Rightarrow> Raises x
                      | Inr prt \<Rightarrow>
                         (case send_request e addr prt
                                 (JObj [(''command'', JStr ''find_successor''),
                                        (''node_id'', target)]) of
                            None \<Rightarrow> Blocks
                          | Some response \<Rightarrow> Returns response)))
               in case num_of target of
                    None \<Rightarrow> Raises TypeError
                  | Some t \<Rightarrow>
                     if float_lt (Finite (of_int (node_id st))) t
                     then (case num_of sid of
                             None \<Rightarrow> Raises TypeError
                           | Some s \<Rightarrow>
                              if float_le t s
                              then Returns (JObj [(''status'', JStr ''success''),
                                                  (''successor'', succ)])
                              else forward)
                     else forward)))"

definition update_predecessor :: "node \<Rightarrow> json \<Rightarrow> json \<Rightarrow> json \<Rightarrow> json \<times> node" where
  "update_predecessor st nid addr prt =
     (JObj [(''status'', JStr ''success''), (''message'', JStr ''Predecessor updated'')],
      st\<lparr>predecessor := JObj [(''node_id'', nid), (''ip'', addr), (''port'', prt)]\<rparr>)"

subsection \<open>Store operations\<close>

definition insert_op :: "env \<Rightarrow> node \<Rightarrow> json \<Rightarrow> json \<Rightarrow> (json \<times> node) outcome" where
  "insert_op e st key val =
     (case hashed_key key of
        Inl x \<Rightarrow> Raises x
      | Inr h \<Rightarrow>
         Returns
           (JObj [(''status'', JStr ''success''),
                  (''message'', JStr (''Inserted '' @ py_str e key @ '' -> '' @ py_str e val))],
            st\<lparr>data_store := (data_store st)(h \<mapsto> val)\<rparr>))"

definition query :: "node \<Rightarrow> json \<Rightarrow> json outcome" where
  "query st key =
     (case hashed_key key of
        Inl x \<Rightarrow> Raises x
      | Inr h \<Rightarrow>
         (case data_store st h of
            Some v \<Rightarrow> Returns (JObj [(''status'', JStr ''success''), (''value'', v)])
          | None \<Rightarrow>
             Returns (JObj [(''status'', JStr ''error''), (''message'', JStr ''Key not found'')])))"

definition delete :: "env \<Rightarrow> node \<Rightarrow> json \<Rightarrow> (json \<times> node) outcome" where
  "delete e st key =
     (case hashed_key key of
        Inl x \<Rightarrow> Raises x
      | Inr h \<Rightarrow>
         (case data_store st h of
            Some v \<Rightarrow>
              Returns
                (JObj [(''status'', JStr ''success''),
                       (''message'', JStr (''Deleted '' @ py_str e key))],
                 st\<lparr>data_store := (data_store st)(h := None)\<rparr>)
          | None \<Rightarrow>
             Returns
               (JObj [(''status'', JStr ''error''), (''message'', JStr ''Key not found'')],
                st)))"

subsection \<open>Dispatch\<close>

text \<open>
  \<^verbatim>\<open>process_request\<close>: the four \<^verbatim>\<open>request.get\<close> calls need a dict (anything else has
  no \<^verbatim>\<open>get\<close>); \<^verbatim>\<open>request["ip"]\<close> and \<^verbatim>\<open>request["port"]\<close> need their keys.
\<close>

definition process_request :: "env \<Rightarrow> node \<Rightarrow> json \<Rightarrow> (json \<times> node) outcome" where
  "process_request e st request =
     (case request of
        JObj d \<Rightarrow>
         (let command = dict_get d ''command'';
              key = dict_get d ''key'';
              val = dict_get d ''value'';
              nid = dict_get d ''node_id''
          in if eq_str command ''insert'' then insert_op e st key val
             else if eq_str command ''query'' then
               (case query st key of
                  Returns r \<Rightarrow> Returns (r, st) | Raises x \<Rightarrow> Raises x | Blocks \<Rightarrow> Blocks)
             else if eq_str command ''delete'' then delete e st key
             else if eq_str command ''find_successor'' then
               (case find_successor e st nid of
                  Returns r \<Rightarrow> Returns (r, st) | Raises x \<Rightarrow> Raises x | Blocks \<Rightarrow> Blocks)
             else if eq_str command ''update_predecessor'' then
               (case subscript request ''ip'' of
                  Inl x \<Rightarrow> Raises x
                | Inr addr \<Rightarrow>
                   (case subscript request ''port'' of
                      Inl x \<Rightarrow> Raises x
                    | Inr prt \<Rightarrow> Returns (update_predecessor st nid addr prt)))
             else Returns
                    (JObj [(''status'', JStr ''error''),
                           (''message'',
                            JStr (''Invalid command received: '' @ py_str e command))],
                     st))
      | _ \<Rightarrow> Raises AttributeError)"

text \<open>
  \<^verbatim>\<open>handle_request\<close> for one connection. The argument is the decoded request, or \<open>None\<close>
  when nothing was decoded (no data, or receiving or \<^verbatim>\<open>json.loads\<close> raised). The result
  is what was sent before the connection was closed, and the node afterwards; an
  exception in the handler sends nothing. \<open>None\<close> as result: the handler never gets
  to close the connection.
\<close>

definition handle_request :: "env \<Rightarrow> node \<Rightarrow> json option \<Rightarrow> (json option \<times> node) option" where
  "handle_request e st data =
     (case data of
        None \<Rightarrow> Some (None, st)
      | Some request \<Rightarrow>
         (case process_request e st request of
            Returns (response, st') \<Rightarrow> Some (Some response, st')
          | Raises x \<Rightarrow> Some (None, st)
          | Blocks \<Rightarrow> None))"

subsection \<open>Construction and join\<close>

text \<open>
  \<^verbatim>\<open>join\<close>: every exception inside is caught and only printed, so the result is the
  node as it stands then; \<open>None\<close> is a request that never returns.
\<close>

definition join :: "env \<Rightarrow> node \<Rightarrow> string \<Rightarrow> int \<Rightarrow> node option" where
  "join e st bootstrap_ip bootstrap_port =
     (case send_request e (JStr bootstrap_ip) (JInt bootstrap_port)
             (JObj [(''command'', JStr ''find_successor''), (''node_id'', JInt (node_id st))]) of
        None \<Rightarrow> None
      | Some successor_response \<Rightarrow>
         (case subscript successor_response ''status'' of
            Inl x \<Rightarrow> Some st
          | Inr status \<Rightarrow>
             if eq_str status ''success'' then
               (case subscript successor_response ''successor'' of
                  Inl x \<Rightarrow> Some st
                | Inr succ \<Rightarrow>
                   (let st' = st\<lparr>successor := Some succ\<rparr>
                    in case subscript succ ''ip'' of
                         Inl x \<Rightarrow> Some st'
                       | Inr addr \<Rightarrow>
                          (case subscript succ ''port'' of
                             Inl x \<Rightarrow> Some st'
                           | Inr prt \<Rightarrow>
                              (case send_request e addr prt
                                      (JObj [(''command'', JStr ''update_predecessor''),
                                             (''node_id'', JInt (node_id st)),
                                             (''ip'', JStr (ip st)),
                                             (''port'', JInt (port st))]) of
                                 None \<Rightarrow> None
                               | Some update_response \<Rightarrow> Some st'))))
             else Some st))"

text \<open>
  \<^verbatim>\<open>__init__\<close> up to the start of the server thread. The bootstrap arguments default
  to \<^verbatim>\<open>None\<close>; \<^verbatim>\<open>if bootstrap_ip and bootstrap_port\<close> also fails on an empty string
  and on port 0.
\<close>

definition init :: "env \<Rightarrow> string \<Rightarrow> int \<Rightarrow> string option \<Rightarrow> int option \<Rightarrow> node outcome" where
  "init e addr prt bootstrap_ip bootstrap_port =
     (case generate_id addr prt of
        Inl x \<Rightarrow> Raises x
      | Inr nid \<Rightarrow>
         (let st = \<lparr>ip = addr, port = prt, node_id = nid, data_store = Map.empty,
                    predecessor = JNull, successor = None\<rparr>
          in case (bootstrap_ip, bootstrap_port) of
               (Some bip, Some bport) \<Rightarrow>
                 if bip \<noteq> [] \<and> bport \<noteq> 0
                 then (case join e st bip bport of None \<Rightarrow> Blocks | Some st' \<Rightarrow> Returns st')
                 else Returns (st\<lparr>successor :=
                        Some (JObj [(''node_id'', JInt nid), (''ip'', JStr addr),
                                    (''port'', JInt prt)])\<rparr>)
             | _ \<Rightarrow>
                 Returns (st\<lparr>successor :=
                   Some (JObj [(''node_id'', JInt nid), (''ip'', JStr addr),
                               (''port'', JInt prt)])\<rparr>)))"

section \<open>Example nodes and environments\<close>

text \<open>A bootstrap address where nobody listens: every connection is refused.\<close>

definition refusing :: env where
  "refusing = \<lparr>transmit = (\<lambda>addr prt request. Failure ''[Errno 111] Connection refused''),
               py_repr = (\<lambda>v. ''?'')\<rparr>"

text \<open>A node that is its own successor.\<close>

definition lone :: node where
  "lone = \<lparr>ip = ''127.0.0.1'', port = 5000, node_id = 7, data_store = Map.empty,
           predecessor = JNull,
           successor = Some (JObj [(''node_id'', JInt 7), (''ip'', JStr ''127.0.0.1''),
                                   (''port'', JInt 5000)])\<rparr>"

text \<open>
  A ring of two: the node with id 10 has the successor with id 20 at 10.0.0.2:5001,
  which answers every request with the descriptor of node 10.
\<close>

definition ring_peer :: env where
  "ring_peer =
     \<lparr>transmit = (\<lambda>addr prt request.
         if addr = JStr ''10.0.0.2'' \<and> prt = JInt 5001
         then Reply (JObj [(''status'', JStr ''success''),
                           (''successor'', JObj [(''node_id'', JInt 10), (''ip'', JStr ''10.0.0.1''),
                                                 (''port'', JInt 5000)])])
         else Failure ''timed out''),
      py_repr = (\<lambda>v. ''?'')\<rparr>"

definition ring_node :: node where
  "ring_node =
     \<lparr>ip = ''10.0.0.1'', port = 5000, node_id = 10, data_store = Map.empty,
      predecessor = JNull,
      successor = Some (JObj [(''node_id'', JInt 20), (''ip'', JStr ''10.0.0.2''),
                              (''port'', JInt 5001)])\<rparr>"

text \<open>A bootstrap node that answers every request with an error status.\<close>

definition rejecting :: env where
  "rejecting =
     \<lparr>transmit = (\<lambda>addr prt request.
         Reply (JObj [(''status'', JStr ''error''), (''message'', JStr ''busy'')])),
      py_repr = (\<lambda>v. ''?'')\<rparr>"

text \<open>The lone node after node 3 announced itself as predecessor.\<close>

definition with_predecessor :: node where
  "with_predecessor =
     lone\<lparr>predecessor := JObj [(''node_id'', JInt 3), (''ip'', JStr ''10.0.0.3''),
                                (''port'', JInt 5003)]\<rparr>"

section \<open>The digest as a number\<close>

lemma of_char_char_of_small: "n < 256 \<Longrightarrow> (of_char (char_of n) :: nat) = n"
  by (simp add: of_char_of)

lemma hexval_code:
  "(of_char c :: nat) = m \<Longrightarrow> hexval c =
     (if 48 \<le> m \<and> m \<le> 57 then Some (m - 48)
      else if 97 \<le> m \<and> m \<le> 102 then Some (m - 87)
      else if 65 \<le> m \<and> m \<le> 70 then Some (m - 55)
      else None)"
  unfolding hexval_def Let_def by (erule ssubst) (rule refl)

lemma hexval_hexchar: "n < 16 \<Longrightarrow> hexval (hexchar n) = Some n"
proof (cases "n < 10")
  case True
  then have "(of_char (hexchar n) :: nat) = 48 + n"
    by (simp add: hexchar_def of_char_char_of_small)
  from hexval_code [OF this] True show ?thesis by simp
next
  case False
  assume n: "n < 16"
  with False have "(of_char (hexchar n) :: nat) = 87 + n"
    by (simp add: hexchar_def of_char_char_of_small)
  from hexval_code [OF this]
  have "hexval (hexchar n) =
     (if 48 \<le> 87 + n \<and> 87 + n \<le> 57 then Some (87 + n - 48)
      else if 97 \<le> 87 + n \<and> 87 + n \<le> 102 then Some (87 + n - 87)
      else if 65 \<le> 87 + n \<and> 87 + n \<le> 70 then Some (87 + n - 55)
      else None)" .
  also have "\<dots> = Some n"
  proof -
    have a: "\<not> (87 + n \<le> 57)" by arith
    have b: "97 \<le> 87 + n" using False by arith
    have c: "87 + n \<le> 102" using n by arith
    show ?thesis by (simp only: a b c simp_thms if_True if_False add_diff_cancel_left')
  qed
  finally show ?thesis .
qed

lemma uint_nibbles: "uint (b :: byte) = 16 * int (unat b div 16) + int (unat b mod 16)"
proof -
  have "int (unat b) = int (16 * (unat b div 16) + unat b mod 16)"
    by (simp only: mult_div_mod_eq)
  then show ?thesis
    by (simp only: uint_nat of_nat_add of_nat_mult of_nat_numeral)
qed

lemma unat_byte_div16: "unat (b :: byte) div 16 < 16"
proof -
  have "unat b < 2 ^ 8" using unsigned_less [of b, where ?'a = nat] by simp
  then show ?thesis by simp
qed

lemma hex_digits_hexdigest:
  "hex_digits (hexdigest bs @ r) acc = hex_digits r (foldl (\<lambda>a b. 256 * a + uint b) acc bs)"
proof (induction bs arbitrary: acc)
  case Nil
  then show ?case by (simp add: hexdigest_def)
next
  case (Cons b bs)
  have step: "hexdigest (b # bs) = hexchar (unat b div 16) # hexchar (unat b mod 16) # hexdigest bs"
    by (simp add: hexdigest_def)
  have eq: "16 * (16 * acc + int (unat b div 16)) + int (unat b mod 16) = 256 * acc + uint b"
    using uint_nibbles [of b] by simp
  have "hex_digits (hexdigest (b # bs) @ r) acc =
        hex_digits (hexdigest bs @ r) (16 * (16 * acc + int (unat b div 16)) + int (unat b mod 16))"
    by (simp add: step hexval_hexchar unat_byte_div16 del: mult.commute)
  also have "\<dots> = hex_digits r (foldl (\<lambda>a b. 256 * a + uint b) (256 * acc + uint b) bs)"
    unfolding eq by (rule Cons.IH)
  finally show ?case by simp
qed

lemma foldl_bytes_bounds:
  "0 \<le> acc \<Longrightarrow> 0 \<le> foldl (\<lambda>a b. 256 * a + uint b) acc (bs :: byte list)
     \<and> foldl (\<lambda>a b. 256 * a + uint b) acc bs < (acc + 1) * 256 ^ length bs"
proof (induction bs arbitrary: acc)
  case Nil
  then show ?case by simp
next
  case (Cons b bs)
  let ?f = "\<lambda>a (b :: byte). 256 * a + uint b"
  have b: "0 \<le> uint b" "uint b < 256"
    using uint_lt2p [of b] by simp_all
  have nonneg: "0 \<le> 256 * acc + uint b" using Cons.prems b by simp
  have "(256 * acc + uint b + 1) * 256 ^ length bs \<le> (256 * acc + 256) * 256 ^ length bs"
    using b by (intro mult_right_mono) simp_all
  also have "\<dots> = (acc + 1) * 256 ^ length (b # bs)" by (simp add: algebra_simps)
  finally have le: "(256 * acc + uint b + 1) * 256 ^ length bs \<le> (acc + 1) * 256 ^ length (b # bs)" .
  from Cons.IH [OF nonneg]
  have ih: "0 \<le> foldl ?f (256 * acc + uint b) bs"
    "foldl ?f (256 * acc + uint b) bs < (256 * acc + uint b + 1) * 256 ^ length bs"
    by simp_all
  have "foldl ?f acc (b # bs) = foldl ?f (256 * acc + uint b) bs" by simp
  with ih le show ?case by (metis (no_types, lifting) less_le_trans)
qed

lemma length_bytes32: "length (bytes32 w) = 4"
  by (simp add: bytes32_def)

lemma length_sha1: "length (sha1 m) = 20"
  by (simp add: sha1_def length_bytes32 split: prod.splits)


lemma foldl_bytes_unsigned:
  "foldl (\<lambda>a b. 256 * a + uint b) acc (bs :: byte list) = acc * 256 ^ length bs + unsigned_be bs"
  by (induction bs arbitrary: acc) (simp_all add: algebra_simps)

lemma unsigned_bounds: "0 \<le> unsigned_be bs \<and> unsigned_be bs < 256 ^ length bs"
  using foldl_bytes_bounds [of 0 bs] by (simp add: foldl_bytes_unsigned)

lemma hexdigest_Nil_iff: "hexdigest bs = [] \<longleftrightarrow> bs = []"
  by (cases bs) (simp_all add: hexdigest_def)

lemma py_int16_hexdigest: "bs \<noteq> [] \<Longrightarrow> py_int16 (hexdigest bs) = Inr (unsigned_be bs)"
  using hex_digits_hexdigest [of bs "[]" 0]
  by (simp add: py_int16_def hexdigest_Nil_iff foldl_bytes_unsigned)

lemma sha1_not_Nil: "sha1 m \<noteq> []"
  using length_sha1 [of m] by auto

lemma unsigned_sha1_bounds: "0 \<le> unsigned_be (sha1 m)" "unsigned_be (sha1 m) < 2 ^ 160"
proof -
  have "(256 :: int) ^ 20 = 2 ^ 160" by simp
  then show "0 \<le> unsigned_be (sha1 m)" "unsigned_be (sha1 m) < 2 ^ 160"
    using unsigned_bounds [of "sha1 m"] by (simp_all add: length_sha1)
qed

lemma digest_id_bounds: "0 \<le> digest_id m" "digest_id m < 2 ^ 160"
  by (simp_all add: digest_id_def)

lemma digest_id_unsigned: "digest_id m = unsigned_be (sha1 m)"
  using unsigned_sha1_bounds [of m] by (simp add: digest_id_def)

subsection \<open>Strings that \<^verbatim>\<open>encode\<close> accepts\<close>

lemma has_surrogate_low:
  "\<forall>c\<in>set t. (of_char c :: nat) < 0xA0 \<Longrightarrow> \<not> has_surrogate t"
  by (induction t rule: has_surrogate.induct) auto

lemma has_surrogate_Cons_low:
  "\<forall>c\<in>set t. (of_char c :: nat) < 0xA0 \<Longrightarrow> \<not> has_surrogate (a # t)"
  by (cases t) (auto simp: has_surrogate_low)

lemma has_surrogate_append_low:
  "\<forall>c\<in>set t. (of_char c :: nat) < 0xA0 \<Longrightarrow> has_surrogate (s @ t) = has_surrogate s"
proof (induction s)
  case Nil
  then show ?case by (simp add: has_surrogate_low)
next
  case (Cons a s)
  show ?case
  proof (cases s)
    case Nil
    with Cons.prems show ?thesis by (simp add: has_surrogate_Cons_low)
  next
    case (Cons b r)
    with Cons.IH [OF Cons.prems] show ?thesis by simp
  qed
qed

lemma digit_char_low: "n < 10 \<Longrightarrow> (of_char (digit_char n) :: nat) < 0xA0"
  by (simp add: digit_char_def of_char_char_of_small)

lemma str_nat_low: "\<forall>c\<in>set (str_nat n). (of_char c :: nat) < 0xA0"
proof (induction n rule: str_nat.induct)
  case (1 n)
  show ?case
  proof (cases "n < 10")
    case True
    then show ?thesis by (subst str_nat.simps) (simp add: digit_char_low)
  next
    case False
    have "n mod 10 < 10" by simp
    with False 1 show ?thesis
      by (subst str_nat.simps) (auto simp: digit_char_low)
  qed
qed

lemma str_int_low: "\<forall>c\<in>set (str_int i). (of_char c :: nat) < 0xA0"
  using str_nat_low by (simp add: str_int_def)

lemma node_str_surrogate:
  "has_surrogate (addr @ CHR 0x3A # str_int prt) = has_surrogate addr"
  by (rule has_surrogate_append_low) (simp add: str_int_low)

lemma encode_node_str:
  "encode (addr @ '':'' @ str_int prt) =
     (if has_surrogate addr then Inl UnicodeEncodeError
      else Inr (utf8 (addr @ '':'' @ str_int prt)))"
  by (simp add: encode_def node_str_surrogate)

lemma generate_id_digest:
  "generate_id addr prt =
     (if has_surrogate addr then Inl UnicodeEncodeError
      else Inr (digest_id (utf8 (addr @ '':'' @ str_int prt))))"
  by (simp add: generate_id_def encode_def node_str_surrogate digest_id_def
        py_int16_hexdigest sha1_not_Nil)

lemma hashed_key_digest:
  "hashed_key (JStr k) =
     (if has_surrogate k then Inl UnicodeEncodeError else Inr (digest_id (utf8 k)))"
  by (simp add: hashed_key_def encode_def digest_id_def py_int16_hexdigest sha1_not_Nil)

section \<open>The operations on well-typed arguments\<close>

lemma py_str_simps:
  "py_str e JNull = ''None''"
  "py_str e (JStr s) = s"
  "py_str e (JInt i) = str_int i"
  "py_str e (JBool b) = (if b then ''True'' else ''False'')"
  by (simp_all add: py_str_def)

lemma insert_op_str:
  "insert_op e st (JStr k) v =
     (if has_surrogate k then Raises UnicodeEncodeError
      else Returns (JObj [(''status'', JStr ''success''),
                          (''message'', JStr (''Inserted '' @ k @ '' -> '' @ py_str e v))],
                    st\<lparr>data_store := (data_store st)(digest_id (utf8 k) \<mapsto> v)\<rparr>))"
  by (simp add: insert_op_def hashed_key_digest py_str_simps)

lemma query_str:
  "query st (JStr k) =
     (if has_surrogate k then Raises UnicodeEncodeError
      else (case data_store st (digest_id (utf8 k)) of
              Some v \<Rightarrow> Returns (JObj [(''status'', JStr ''success''), (''value'', v)])
            | None \<Rightarrow>
                Returns (JObj [(''status'', JStr ''error''),
                               (''message'', JStr ''Key not found'')])))"
  by (simp add: query_def hashed_key_digest)

lemma delete_str:
  "delete e st (JStr k) =
     (if has_surrogate k then Raises UnicodeEncodeError
      else (case data_store st (digest_id (utf8 k)) of
              Some v \<Rightarrow>
                Returns (JObj [(''status'', JStr ''success''),
                               (''message'', JStr (''Deleted '' @ k))],
                         st\<lparr>data_store := (data_store st)(digest_id (utf8 k) := None)\<rparr>)
            | None \<Rightarrow>
                Returns (JObj [(''status'', JStr ''error''),
                               (''message'', JStr ''Key not found'')], st)))"
  by (simp add: delete_def hashed_key_digest py_str_simps split: option.splits)

lemma float_of_int_simps:
  "float_lt (Finite (of_int a)) (Finite (of_int b)) = (a < b)"
  "float_le (Finite (of_int a)) (Finite (of_int b)) = (a \<le> b)"
  "float_eq (Finite (of_int a)) (Finite (of_int b)) = (a = b)"
  by (auto simp: float_le_def)

lemma eq_int_JInt: "eq_int (JInt a) b = (a = b)"
  by (simp add: eq_int_def)



lemma store_ops_frame:
  "insert_op e st key v = Returns (r, st') \<Longrightarrow> st' = st\<lparr>data_store := data_store st'\<rparr>"
  "delete e st key = Returns (r, st') \<Longrightarrow> st' = st\<lparr>data_store := data_store st'\<rparr>"
  by (auto simp: insert_op_def delete_def split: sum.splits option.splits)

lemma process_request_not_dict:
  "process_request e st r = Returns (resp, st') \<Longrightarrow> \<exists>d. r = JObj d"
  by (cases r) (simp_all add: process_request_def)

lemma process_request_JObj:
  "process_request e st (JObj d) =
     (if dict_get d ''command'' = JStr ''insert''
        then insert_op e st (dict_get d ''key'') (dict_get d ''value'')
      else if dict_get d ''command'' = JStr ''query'' then
        (case query st (dict_get d ''key'') of
           Returns r \<Rightarrow> Returns (r, st) | Raises x \<Rightarrow> Raises x | Blocks \<Rightarrow> Blocks)
      else if dict_get d ''command'' = JStr ''delete'' then delete e st (dict_get d ''key'')
      else if dict_get d ''command'' = JStr ''find_successor'' then
        (case find_successor e st (dict_get d ''node_id'') of
           Returns r \<Rightarrow> Returns (r, st) | Raises x \<Rightarrow> Raises x | Blocks \<Rightarrow> Blocks)
      else if dict_get d ''command'' = JStr ''update_predecessor'' then
        (case map_of d ''ip'' of
           None \<Rightarrow> Raises KeyError
         | Some addr \<Rightarrow>
            (case map_of d ''port'' of
               None \<Rightarrow> Raises KeyError
             | Some prt \<Rightarrow> Returns (update_predecessor st (dict_get d ''node_id'') addr prt)))
      else Returns
             (JObj [(''status'', JStr ''error''),
                    (''message'',
                     JStr (''Invalid command received: '' @ py_str e (dict_get d ''command'')))],
              st))"
  by (simp add: process_request_def eq_str_def Let_def split: option.splits)

lemma dict_get_absent: "map_of d k = None \<Longrightarrow> dict_get d k = JNull"
  by (simp add: dict_get_def)

lemma hashed_key_JNull: "hashed_key JNull = Inl AttributeError"
  by (simp add: hashed_key_def)

lemma join_frame:
  "join e st bip bport = Some st' \<Longrightarrow> st' = st\<lparr>successor := successor st'\<rparr>"
  by (auto simp: join_def Let_def split: option.splits sum.splits if_splits)

section \<open>Routing\<close>

text \<open>
  Claim C1. On a node whose successor descriptor carries an id other than the node's own,
  \<open>find_successor\<close> for an integer target answers with the successor descriptor and
  status success exactly when \<open>node_id < target \<le> successor.node_id\<close>, compared as plain
  integers. Otherwise it sends the request
  \<^verbatim>\<open>{"command": "find_successor", "node_id": target}\<close> to the successor's address and
  returns the decoded answer as it is (a failed exchange becomes the error response of
  \<open>send_request\<close>, a silent peer blocks the call). When that request came in through
  the dispatcher, the request sent on is the one received.
\<close>

theorem find_successor_interval:
  assumes "successor st = Some (JObj d)"
    and "map_of d ''node_id'' = Some (JInt sid)"
    and "sid \<noteq> node_id st"
  shows "(node_id st < t \<and> t \<le> sid \<longrightarrow>
           find_successor e st (JInt t) =
             Returns (JObj [(''status'', JStr ''success''), (''successor'', JObj d)]))
       \<and> (\<not> (node_id st < t \<and> t \<le> sid) \<longrightarrow>
           (\<forall>addr prt. map_of d ''ip'' = Some addr \<longrightarrow> map_of d ''port'' = Some prt \<longrightarrow>
              find_successor e st (JInt t) =
                (case transmit e addr prt
                        (JObj [(''command'', JStr ''find_successor''), (''node_id'', JInt t)]) of
                   Reply response \<Rightarrow> Returns response
                 | Failure msg \<Rightarrow>
                     Returns (JObj [(''status'', JStr ''error''), (''message'', JStr msg)])
                 | NoReply \<Rightarrow> Blocks)
              \<and> process_request e st
                    (JObj [(''command'', JStr ''find_successor''), (''node_id'', JInt t)]) =
                (case transmit e addr prt
                        (JObj [(''command'', JStr ''find_successor''), (''node_id'', JInt t)]) of
                   Reply response \<Rightarrow> Returns (response, st)
                 | Failure msg \<Rightarrow>
                     Returns (JObj [(''status'', JStr ''error''), (''message'', JStr msg)], st)
                 | NoReply \<Rightarrow> Blocks)))"
proof -
  have local: "find_successor e st (JInt t) =
             Returns (JObj [(''status'', JStr ''success''), (''successor'', JObj d)])"
    if "node_id st < t \<and> t \<le> sid"
    using assms that
    by (simp add: find_successor_def eq_int_JInt float_of_int_simps)
  have forward: "find_successor e st (JInt t) =
                (case transmit e addr prt
                        (JObj [(''command'', JStr ''find_successor''), (''node_id'', JInt t)]) of
                   Reply response \<Rightarrow> Returns response
                 | Failure msg \<Rightarrow>
                     Returns (JObj [(''status'', JStr ''error''), (''message'', JStr msg)])
                 | NoReply \<Rightarrow> Blocks)"
    if "\<not> (node_id st < t \<and> t \<le> sid)" "map_of d ''ip'' = Some addr" "map_of d ''port'' = Some prt"
    for addr prt
    using assms that
    by (auto simp: find_successor_def eq_int_JInt float_of_int_simps send_request_def Let_def
          split: exchange.splits)
  have dispatched: "process_request e st
                    (JObj [(''command'', JStr ''find_successor''), (''node_id'', JInt t)]) =
                (case transmit e addr prt
                        (JObj [(''command'', JStr ''find_successor''), (''node_id'', JInt t)]) of
                   Reply response \<Rightarrow> Returns (response, st)
                 | Failure msg \<Rightarrow>
                     Returns (JObj [(''status'', JStr ''error''), (''message'', JStr msg)], st)
                 | NoReply \<Rightarrow> Blocks)"
    if "\<not> (node_id st < t \<and> t \<le> sid)" "map_of d ''ip'' = Some addr" "map_of d ''port'' = Some prt"
    for addr prt
    using forward [OF that]
    by (simp add: process_request_JObj dict_get_def split: exchange.splits)
  from local forward dispatched show ?thesis by blast
qed

theorem find_successor_interval_witness:
  "successor ring_node =
     Some (JObj [(''node_id'', JInt 20), (''ip'', JStr ''10.0.0.2''), (''port'', JInt 5001)])
   \<and> (20 :: int) \<noteq> node_id ring_node
   \<and> find_successor ring_peer ring_node (JInt 15) =
       Returns (JObj [(''status'', JStr ''success''),
                      (''successor'', JObj [(''node_id'', JInt 20), (''ip'', JStr ''10.0.0.2''),
                                            (''port'', JInt 5001)])])
   \<and> find_successor ring_peer ring_node (JInt 10) =
       Returns (JObj [(''status'', JStr ''success''),
                      (''successor'', JObj [(''node_id'', JInt 10), (''ip'', JStr ''10.0.0.1''),
                                            (''port'', JInt 5000)])])
   \<and> find_successor ring_peer ring_node (JInt 21) =
       Returns (JObj [(''status'', JStr ''success''),
                      (''successor'', JObj [(''node_id'', JInt 10), (''ip'', JStr ''10.0.0.1''),
                                            (''port'', JInt 5000)])])"
  using find_successor_interval [of ring_node
          "[(''node_id'', JInt 20), (''ip'', JStr ''10.0.0.2''), (''port'', JInt 5001)]" 20 15 ring_peer]
        find_successor_interval [of ring_node
          "[(''node_id'', JInt 20), (''ip'', JStr ''10.0.0.2''), (''port'', JInt 5001)]" 20 10 ring_peer]
        find_successor_interval [of ring_node
          "[(''node_id'', JInt 20), (''ip'', JStr ''10.0.0.2''), (''port'', JInt 5001)]" 20 21 ring_peer]
  by (simp add: ring_node_def ring_peer_def)



section \<open>The store\<close>

text \<open>
  Claim C3, amended. For every string key k that \<open>encode\<close> accepts (no unpaired
  surrogate) and every value v (a string in particular), \<open>insert\<close> returns the success
  response and stores v under the hashed key, whatever was there before; \<open>query\<close> of k
  on the resulting node returns success with v. A second \<open>insert\<close> under k replaces
  the first value.
\<close>

theorem insert_then_query:
  assumes "\<not> has_surrogate k"
  shows "insert_op e st (JStr k) v =
     Returns (JObj [(''status'', JStr ''success''),
                    (''message'', JStr (''Inserted '' @ k @ '' -> '' @ py_str e v))],
              st\<lparr>data_store := (data_store st)(digest_id (utf8 k) \<mapsto> v)\<rparr>)
   \<and> query (st\<lparr>data_store := (data_store st)(digest_id (utf8 k) \<mapsto> v)\<rparr>) (JStr k) =
       Returns (JObj [(''status'', JStr ''success''), (''value'', v)])
   \<and> insert_op e (st\<lparr>data_store := (data_store st)(digest_id (utf8 k) \<mapsto> v)\<rparr>) (JStr k) w =
       Returns (JObj [(''status'', JStr ''success''),
                      (''message'', JStr (''Inserted '' @ k @ '' -> '' @ py_str e w))],
                st\<lparr>data_store := (data_store st)(digest_id (utf8 k) \<mapsto> w)\<rparr>)
   \<and> py_str e (JStr s) = s"
  using assms by (simp add: insert_op_str query_str py_str_simps)

theorem insert_then_query_witness:
  "\<not> has_surrogate ''song''
   \<and> insert_op refusing lone (JStr ''song'') (JStr ''x'') =
       Returns (JObj [(''status'', JStr ''success''), (''message'', JStr ''Inserted song -> x'')],
                lone\<lparr>data_store := [digest_id (utf8 ''song'') \<mapsto> JStr ''x'']\<rparr>)
   \<and> query (lone\<lparr>data_store := [digest_id (utf8 ''song'') \<mapsto> JStr ''x'']\<rparr>) (JStr ''song'') =
       Returns (JObj [(''status'', JStr ''success''), (''value'', JStr ''x'')])"
  using insert_then_query [of "''song''" refusing lone "JStr ''x''" "JStr ''y''" "''s''"]
  by (simp add: lone_def py_str_simps)

text \<open>
  Claim C3 as stated, for every string key, fails: \<^verbatim>\<open>json.loads\<close> delivers the key
  U+D800 for the request \<^verbatim>\<open>{"command": "insert", "key": <escape of U+D800>, "value": "x"}\<close>,
  and \<open>insert\<close> raises \<^verbatim>\<open>UnicodeEncodeError\<close> on it instead of returning success.
\<close>

theorem insert_surrogate_key_raises:
  "insert_op refusing lone (JStr [CHR 0xED, CHR 0xA0, CHR 0x80]) (JStr ''x'') =
     Raises UnicodeEncodeError"
  by (simp add: insert_op_str)

text \<open>
  Claim C4, amended. For every string key k that \<open>encode\<close> accepts (no unpaired
  surrogate), \<open>delete\<close> returns, and \<open>query\<close> of k on the node it leaves answers the
  error "Key not found". \<open>delete\<close> without an entry under the hashed key returns the
  error "Key not found" and leaves the node as it is; with an entry it removes the entry
  and returns success.
\<close>

theorem delete_then_query:
  assumes "\<not> has_surrogate k"
  shows "(\<exists>r st'. delete e st (JStr k) = Returns (r, st')
       \<and> query st' (JStr k) =
           Returns (JObj [(''status'', JStr ''error''), (''message'', JStr ''Key not found'')]))
   \<and> (data_store st (digest_id (utf8 k)) = None \<longrightarrow>
        delete e st (JStr k) =
          Returns (JObj [(''status'', JStr ''error''), (''message'', JStr ''Key not found'')], st))
   \<and> (\<forall>v. data_store st (digest_id (utf8 k)) = Some v \<longrightarrow>
        delete e st (JStr k) =
          Returns (JObj [(''status'', JStr ''success''), (''message'', JStr (''Deleted '' @ k))],
                   st\<lparr>data_store := (data_store st)(digest_id (utf8 k) := None)\<rparr>))"
  using assms
  by (cases "data_store st (digest_id (utf8 k))") (simp_all add: delete_str query_str)

theorem delete_then_query_witness:
  "\<not> has_surrogate ''song''
   \<and> data_store lone (digest_id (utf8 ''song'')) = None
   \<and> delete refusing lone (JStr ''song'') =
       Returns (JObj [(''status'', JStr ''error''), (''message'', JStr ''Key not found'')], lone)
   \<and> data_store (lone\<lparr>data_store := [digest_id (utf8 ''song'') \<mapsto> JStr ''x'']\<rparr>)
        (digest_id (utf8 ''song'')) = Some (JStr ''x'')
   \<and> delete refusing (lone\<lparr>data_store := [digest_id (utf8 ''song'') \<mapsto> JStr ''x'']\<rparr>)
        (JStr ''song'') =
       Returns (JObj [(''status'', JStr ''success''), (''message'', JStr ''Deleted song'')], lone)"
  using delete_then_query [of "''song''" refusing lone]
    delete_then_query [of "''song''" refusing
      "lone\<lparr>data_store := [digest_id (utf8 ''song'') \<mapsto> JStr ''x'']\<rparr>"]
  by (simp add: lone_def)

text \<open>
  Claim C4 as stated, for every string key, fails: on the key U+D800, which
  \<^verbatim>\<open>json.loads\<close> delivers, \<open>delete\<close> and \<open>query\<close> raise \<^verbatim>\<open>UnicodeEncodeError\<close> instead
  of returning the error response "Key not found".
\<close>

theorem delete_surrogate_key_raises:
  "delete refusing lone (JStr [CHR 0xED, CHR 0xA0, CHR 0x80]) = Raises UnicodeEncodeError
   \<and> query lone (JStr [CHR 0xED, CHR 0xA0, CHR 0x80]) = Raises UnicodeEncodeError
   \<and> handle_request refusing lone
        (Some (JObj [(''command'', JStr ''delete''),
                     (''key'', JStr [CHR 0xED, CHR 0xA0, CHR 0x80])])) = Some (None, lone)"
  by (simp add: delete_str query_str handle_request_def process_request_JObj dict_get_def)

section \<open>Identity\<close>

text \<open>
  Claim C5. \<open>generate_id\<close> is the SHA-1 digest of the UTF-8 bytes of "ip:port", read as
  an unsigned integer and reduced modulo \<open>2 ^ 160\<close>, whenever \<open>encode\<close> yields these
  bytes (it raises for an address with an unpaired surrogate, and for nothing else);
  the keys of \<open>insert\<close>, \<open>query\<close> and \<open>delete\<close> go through the same digest of the key's
  bytes. The identifier lies in \<open>0 ..< 2 ^ 160\<close> (the reduction changes nothing). Being
  functions of their arguments alone, equal inputs give equal identifiers.
\<close>

theorem identifier_is_digest:
  "generate_id addr prt =
     (if has_surrogate addr then Inl UnicodeEncodeError
      else Inr (digest_id (utf8 (addr @ '':'' @ str_int prt))))
   \<and> encode (addr @ '':'' @ str_int prt) =
     (if has_surrogate addr then Inl UnicodeEncodeError
      else Inr (utf8 (addr @ '':'' @ str_int prt)))
   \<and> hashed_key (JStr k) =
     (if has_surrogate k then Inl UnicodeEncodeError else Inr (digest_id (utf8 k)))
   \<and> encode k = (if has_surrogate k then Inl UnicodeEncodeError else Inr (utf8 k))
   \<and> digest_id m = unsigned_be (sha1 m) \<and> 0 \<le> digest_id m \<and> digest_id m < 2 ^ 160
   \<and> insert_op e st (JStr k) v =
       (if has_surrogate k then Raises UnicodeEncodeError
        else Returns (JObj [(''status'', JStr ''success''),
                            (''message'', JStr (''Inserted '' @ k @ '' -> '' @ py_str e v))],
                      st\<lparr>data_store := (data_store st)(digest_id (utf8 k) \<mapsto> v)\<rparr>))
   \<and> query st (JStr k) =
       (if has_surrogate k then Raises UnicodeEncodeError
        else (case data_store st (digest_id (utf8 k)) of
                Some v \<Rightarrow> Returns (JObj [(''status'', JStr ''success''), (''value'', v)])
              | None \<Rightarrow>
                  Returns (JObj [(''status'', JStr ''error''),
                                 (''message'', JStr ''Key not found'')])))
   \<and> delete e st (JStr k) =
       (if has_surrogate k then Raises UnicodeEncodeError
        else (case data_store st (digest_id (utf8 k)) of
                Some v \<Rightarrow>
                  Returns (JObj [(''status'', JStr ''success''),
                                 (''message'', JStr (''Deleted '' @ k))],
                           st\<lparr>data_store := (data_store st)(digest_id (utf8 k) := None)\<rparr>)
              | None \<Rightarrow>
                  Returns (JObj [(''status'', JStr ''error''),
                                 (''message'', JStr ''Key not found'')], st)))"
proof -
  have "encode k = (if has_surrogate k then Inl UnicodeEncodeError else Inr (utf8 k))"
    by (simp add: encode_def)
  with digest_id_bounds [of m] digest_id_unsigned [of m]
  show ?thesis
    by (simp only: generate_id_digest encode_node_str hashed_key_digest insert_op_str query_str
          delete_str simp_thms)
qed

section \<open>Construction\<close>

text \<open>
  Claim C6 (every node holds a successor descriptor once constructed, also after a
  failed join) does not hold of the code. A node started with a bootstrap address that
  refuses the connection, or that answers with an error status, is constructed without the attribute \<open>successor\<close>: \<open>join\<close>
  assigns it only after a success response to its first request. \<open>find_successor\<close> on
  that node raises \<^verbatim>\<open>AttributeError\<close>.
\<close>

theorem failed_join_has_no_successor:
  "init refusing ''127.0.0.1'' 5001 (Some ''127.0.0.1'') (Some 5000) =
     Returns \<lparr>ip = ''127.0.0.1'', port = 5001,
              node_id = digest_id (utf8 (''127.0.0.1'' @ '':'' @ str_int 5001)),
              data_store = Map.empty, predecessor = JNull, successor = None\<rparr>
   \<and> init rejecting ''127.0.0.1'' 5001 (Some ''127.0.0.1'') (Some 5000) =
     Returns \<lparr>ip = ''127.0.0.1'', port = 5001,
              node_id = digest_id (utf8 (''127.0.0.1'' @ '':'' @ str_int 5001)),
              data_store = Map.empty, predecessor = JNull, successor = None\<rparr>
   \<and> find_successor refusing
        \<lparr>ip = ''127.0.0.1'', port = 5001,
         node_id = digest_id (utf8 (''127.0.0.1'' @ '':'' @ str_int 5001)),
         data_store = Map.empty, predecessor = JNull, successor = None\<rparr> (JInt 1) =
       Raises AttributeError"
  by (simp add: init_def generate_id_digest join_def send_request_def refusing_def
        rejecting_def find_successor_def eq_str_def)

section \<open>The dispatcher\<close>

text \<open>
  Claim C7. \<open>update_predecessor\<close> replaces the predecessor, whatever it was, by the
  descriptor \<^verbatim>\<open>{node_id, ip, port}\<close> of its arguments and returns the success response
  "Predecessor updated"; so does the request that reaches it through the dispatcher.
  A request with any other command, and \<open>join\<close>, leave the predecessor as it is, and
  no request turns a predecessor that is set back into \<^verbatim>\<open>None\<close>.
\<close>

theorem update_predecessor_overwrites:
  "update_predecessor st nid addr prt =
     (JObj [(''status'', JStr ''success''), (''message'', JStr ''Predecessor updated'')],
      st\<lparr>predecessor := JObj [(''node_id'', nid), (''ip'', addr), (''port'', prt)]\<rparr>)
   \<and> (process_request e st (JObj d) = Returns (resp, st')
        \<and> dict_get d ''command'' = JStr ''update_predecessor'' \<longrightarrow>
        (\<exists>a p. map_of d ''ip'' = Some a \<and> map_of d ''port'' = Some p
           \<and> predecessor st' = JObj [(''node_id'', dict_get d ''node_id''), (''ip'', a), (''port'', p)]
           \<and> resp = JObj [(''status'', JStr ''success''),
                          (''message'', JStr ''Predecessor updated'')]))
   \<and> (process_request e st r = Returns (resp, st')
        \<and> (\<forall>d. r = JObj d \<longrightarrow> dict_get d ''command'' \<noteq> JStr ''update_predecessor'') \<longrightarrow>
        predecessor st' = predecessor st)
   \<and> (process_request e st r = Returns (resp, st') \<and> predecessor st \<noteq> JNull \<longrightarrow>
        predecessor st' \<noteq> JNull)
   \<and> (join e st bip bport = Some st' \<longrightarrow> predecessor st' = predecessor st)"
proof (intro conjI impI)
  show "update_predecessor st nid addr prt =
     (JObj [(''status'', JStr ''success''), (''message'', JStr ''Predecessor updated'')],
      st\<lparr>predecessor := JObj [(''node_id'', nid), (''ip'', addr), (''port'', prt)]\<rparr>)"
    by (simp add: update_predecessor_def)
next
  assume "process_request e st (JObj d) = Returns (resp, st')
        \<and> dict_get d ''command'' = JStr ''update_predecessor''"
  then show "\<exists>a p. map_of d ''ip'' = Some a \<and> map_of d ''port'' = Some p
           \<and> predecessor st' = JObj [(''node_id'', dict_get d ''node_id''), (''ip'', a), (''port'', p)]
           \<and> resp = JObj [(''status'', JStr ''success''),
                          (''message'', JStr ''Predecessor updated'')]"
    by (auto simp: process_request_JObj update_predecessor_def split: option.splits)
next
  assume a: "process_request e st r = Returns (resp, st')
        \<and> (\<forall>d. r = JObj d \<longrightarrow> dict_get d ''command'' \<noteq> JStr ''update_predecessor'')"
  then obtain d where r: "r = JObj d"
    using process_request_not_dict by blast
  with a have ret: "process_request e st (JObj d) = Returns (resp, st')"
    and cmd: "dict_get d ''command'' \<noteq> JStr ''update_predecessor''"
    by simp_all
  from ret cmd show "predecessor st' = predecessor st"
    by (auto simp: process_request_JObj split: if_splits outcome.splits
          dest: store_ops_frame [THEN arg_cong [where f = predecessor]])
next
  assume a: "process_request e st r = Returns (resp, st') \<and> predecessor st \<noteq> JNull"
  then obtain d where r: "r = JObj d"
    using process_request_not_dict by blast
  with a have ret: "process_request e st (JObj d) = Returns (resp, st')"
    and pre: "predecessor st \<noteq> JNull"
    by simp_all
  from ret pre show "predecessor st' \<noteq> JNull"
    by (auto simp: process_request_JObj update_predecessor_def
          split: if_splits outcome.splits option.splits
          dest: store_ops_frame [THEN arg_cong [where f = predecessor]])
next
  assume "join e st bip bport = Some st'"
  from join_frame [OF this, THEN arg_cong [where f = predecessor]]
  show "predecessor st' = predecessor st" by simp
qed

theorem update_predecessor_overwrites_witness:
  "process_request refusing with_predecessor
     (JObj [(''command'', JStr ''update_predecessor''), (''node_id'', JInt 5),
            (''ip'', JStr ''10.0.0.5''), (''port'', JInt 5005)]) =
     Returns (JObj [(''status'', JStr ''success''), (''message'', JStr ''Predecessor updated'')],
              lone\<lparr>predecessor := JObj [(''node_id'', JInt 5), (''ip'', JStr ''10.0.0.5''),
                                         (''port'', JInt 5005)]\<rparr>)
   \<and> predecessor with_predecessor \<noteq> JNull
   \<and> predecessor (lone\<lparr>predecessor := JObj [(''node_id'', JInt 5), (''ip'', JStr ''10.0.0.5''),
                                             (''port'', JInt 5005)]\<rparr>) =
       JObj [(''node_id'', JInt 5), (''ip'', JStr ''10.0.0.5''), (''port'', JInt 5005)]
   \<and> process_request refusing with_predecessor (JObj [(''command'', JStr ''ping'')]) =
       Returns (JObj [(''status'', JStr ''error''),
                      (''message'', JStr ''Invalid command received: ping'')],
                with_predecessor)
   \<and> join refusing with_predecessor ''10.0.0.9'' 5009 = Some with_predecessor"
  using update_predecessor_overwrites [of with_predecessor "JInt 5" "JStr ''10.0.0.5''" "JInt 5005"
      refusing
      "[(''command'', JStr ''update_predecessor''), (''node_id'', JInt 5),
        (''ip'', JStr ''10.0.0.5''), (''port'', JInt 5005)]"
      "JObj [(''status'', JStr ''success''), (''message'', JStr ''Predecessor updated'')]"
      "lone\<lparr>predecessor := JObj [(''node_id'', JInt 5), (''ip'', JStr ''10.0.0.5''),
                                  (''port'', JInt 5005)]\<rparr>"]
    update_predecessor_overwrites [of with_predecessor "JInt 5" "JStr ''10.0.0.5''" "JInt 5005"
      refusing "[]"
      "JObj [(''status'', JStr ''error''), (''message'', JStr ''Invalid command received: ping'')]"
      with_predecessor "JObj [(''command'', JStr ''ping'')]" "''10.0.0.9''" 5009]
  by (simp add: process_request_JObj dict_get_def update_predecessor_def with_predecessor_def
        lone_def py_str_simps join_def send_request_def refusing_def eq_str_def)

text \<open>
  Claim C8. A request object whose \<open>command\<close> is absent (then \<^verbatim>\<open>None\<close>) or is none of
  insert, query, delete, find_successor, update_predecessor is answered by
  \<^verbatim>\<open>{"status": "error", "message": "Invalid command received: <command>"}\<close>, the node
  is left as it is, and the handler sends that response.
\<close>

theorem invalid_command_response:
  assumes "dict_get d ''command'' \<notin>
             {JStr ''insert'', JStr ''query'', JStr ''delete'', JStr ''find_successor'',
              JStr ''update_predecessor''}"
  shows "process_request e st (JObj d) =
           Returns (JObj [(''status'', JStr ''error''),
                          (''message'',
                           JStr (''Invalid command received: '' @ py_str e (dict_get d ''command'')))],
                    st)
       \<and> handle_request e st (Some (JObj d)) =
           Some (Some (JObj [(''status'', JStr ''error''),
                             (''message'',
                              JStr (''Invalid command received: ''
                                    @ py_str e (dict_get d ''command'')))]),
                 st)"
  using assms by (simp add: handle_request_def process_request_JObj)

theorem invalid_command_response_witness:
  "dict_get [(''key'', JStr ''song'')] ''command'' = JNull
   \<and> handle_request refusing lone (Some (JObj [(''key'', JStr ''song'')])) =
       Some (Some (JObj [(''status'', JStr ''error''),
                         (''message'', JStr ''Invalid command received: None'')]),
             lone)
   \<and> dict_get [(''command'', JStr ''shutdown'')] ''command'' = JStr ''shutdown''
   \<and> process_request refusing lone (JObj [(''command'', JStr ''shutdown'')]) =
       Returns (JObj [(''status'', JStr ''error''),
                      (''message'', JStr ''Invalid command received: shutdown'')],
                lone)"
  using invalid_command_response [of "[(''key'', JStr ''song'')]" refusing lone]
    invalid_command_response [of "[(''command'', JStr ''shutdown'')]" refusing lone]
  by (simp add: dict_get_def py_str_simps)

text \<open>
  Claim C9. Whenever a request is answered: insert, query and delete leave successor,
  predecessor and node_id as they are; update_predecessor and find_successor (forwarding
  or not) leave the data store and the successor as they are; query and find_successor
  leave the whole node as it is.
\<close>

theorem operations_frame:
  assumes "process_request e st (JObj d) = Returns (resp, st')"
  shows "(dict_get d ''command'' \<in> {JStr ''insert'', JStr ''query'', JStr ''delete''} \<longrightarrow>
            successor st' = successor st \<and> predecessor st' = predecessor st
            \<and> node_id st' = node_id st)
       \<and> (dict_get d ''command'' \<in> {JStr ''update_predecessor'', JStr ''find_successor''} \<longrightarrow>
            data_store st' = data_store st \<and> successor st' = successor st
            \<and> node_id st' = node_id st)
       \<and> (dict_get d ''command'' \<in> {JStr ''query'', JStr ''find_successor''} \<longrightarrow> st' = st)"
proof -
  have store: "successor st' = successor st \<and> predecessor st' = predecessor st
            \<and> node_id st' = node_id st"
    if "dict_get d ''command'' \<in> {JStr ''insert'', JStr ''query'', JStr ''delete''}"
  proof -
    from assms that have eq: "st' = st\<lparr>data_store := data_store st'\<rparr>"
      by (auto simp: process_request_JObj split: if_splits outcome.splits dest: store_ops_frame)
    have "successor st' = successor (st\<lparr>data_store := data_store st'\<rparr>)"
      "predecessor st' = predecessor (st\<lparr>data_store := data_store st'\<rparr>)"
      "node_id st' = node_id (st\<lparr>data_store := data_store st'\<rparr>)"
      using eq by simp_all
    then show ?thesis by simp
  qed
  have ring: "data_store st' = data_store st \<and> successor st' = successor st
            \<and> node_id st' = node_id st"
    if "dict_get d ''command'' \<in> {JStr ''update_predecessor'', JStr ''find_successor''}"
    using assms that
    by (auto simp: process_request_JObj update_predecessor_def
          split: if_splits outcome.splits option.splits)
  have readonly: "st' = st"
    if "dict_get d ''command'' \<in> {JStr ''query'', JStr ''find_successor''}"
    using assms that
    by (auto simp: process_request_JObj split: if_splits outcome.splits)
  from store ring readonly show ?thesis by blast
qed

theorem operations_frame_witness:
  "process_request refusing lone
     (JObj [(''command'', JStr ''insert''), (''key'', JStr ''song''), (''value'', JStr ''x'')]) =
     Returns (JObj [(''status'', JStr ''success''), (''message'', JStr ''Inserted song -> x'')],
              lone\<lparr>data_store := [digest_id (utf8 ''song'') \<mapsto> JStr ''x'']\<rparr>)
   \<and> successor (lone\<lparr>data_store := [digest_id (utf8 ''song'') \<mapsto> JStr ''x'']\<rparr>) = successor lone
   \<and> predecessor (lone\<lparr>data_store := [digest_id (utf8 ''song'') \<mapsto> JStr ''x'']\<rparr>) = predecessor lone
   \<and> node_id (lone\<lparr>data_store := [digest_id (utf8 ''song'') \<mapsto> JStr ''x'']\<rparr>) = node_id lone
   \<and> process_request refusing lone
       (JObj [(''command'', JStr ''update_predecessor''), (''node_id'', JInt 5),
              (''ip'', JStr ''10.0.0.5''), (''port'', JInt 5005)]) =
       Returns (JObj [(''status'', JStr ''success''), (''message'', JStr ''Predecessor updated'')],
                lone\<lparr>predecessor := JObj [(''node_id'', JInt 5), (''ip'', JStr ''10.0.0.5''),
                                           (''port'', JInt 5005)]\<rparr>)
   \<and> data_store (lone\<lparr>predecessor := JObj [(''node_id'', JInt 5), (''ip'', JStr ''10.0.0.5''),
                                            (''port'', JInt 5005)]\<rparr>) = data_store lone
   \<and> process_request refusing lone
       (JObj [(''command'', JStr ''find_successor''), (''node_id'', JInt 99)]) =
       Returns (JObj [(''status'', JStr ''success''),
                      (''successor'', JObj [(''node_id'', JInt 7), (''ip'', JStr ''127.0.0.1''),
                                            (''port'', JInt 5000)])],
                lone)"
  using operations_frame [of refusing lone
      "[(''command'', JStr ''insert''), (''key'', JStr ''song''), (''value'', JStr ''x'')]"
      "JObj [(''status'', JStr ''success''), (''message'', JStr ''Inserted song -> x'')]"
      "lone\<lparr>data_store := [digest_id (utf8 ''song'') \<mapsto> JStr ''x'']\<rparr>"]
    operations_frame [of refusing lone
      "[(''command'', JStr ''update_predecessor''), (''node_id'', JInt 5),
        (''ip'', JStr ''10.0.0.5''), (''port'', JInt 5005)]"
      "JObj [(''status'', JStr ''success''), (''message'', JStr ''Predecessor updated'')]"
      "lone\<lparr>predecessor := JObj [(''node_id'', JInt 5), (''ip'', JStr ''10.0.0.5''),
                                  (''port'', JInt 5005)]\<rparr>"]
    operations_frame [of refusing lone
      "[(''command'', JStr ''find_successor''), (''node_id'', JInt 99)]"
      "JObj [(''status'', JStr ''success''),
             (''successor'', JObj [(''node_id'', JInt 7), (''ip'', JStr ''127.0.0.1''),
                                   (''port'', JInt 5000)])]"
      lone]
  by (simp add: process_request_JObj dict_get_def insert_op_str py_str_simps lone_def
        update_predecessor_def find_successor_def eq_int_JInt)

text \<open>
  Claim C10. A request object with command insert, query or delete and no \<open>key\<close> raises
  \<^verbatim>\<open>AttributeError\<close> in the handler, one with command update_predecessor and no \<open>ip\<close>
  or no \<open>port\<close> raises \<^verbatim>\<open>KeyError\<close>; in both cases the connection is closed with
  nothing sent and the node unchanged, and the invalid-command response is not produced.
\<close>

theorem missing_field_drops_connection:
  "(dict_get d ''command'' \<in> {JStr ''insert'', JStr ''query'', JStr ''delete''}
      \<and> map_of d ''key'' = None \<longrightarrow>
      process_request e st (JObj d) = Raises AttributeError
      \<and> handle_request e st (Some (JObj d)) = Some (None, st))
   \<and> (dict_get d ''command'' = JStr ''update_predecessor''
      \<and> (map_of d ''ip'' = None \<or> map_of d ''port'' = None) \<longrightarrow>
      process_request e st (JObj d) = Raises KeyError
      \<and> handle_request e st (Some (JObj d)) = Some (None, st))"
  by (auto simp: handle_request_def process_request_JObj dict_get_absent hashed_key_JNull
        insert_op_def query_def delete_def split: option.splits)

theorem missing_field_drops_connection_witness:
  "dict_get [(''command'', JStr ''query'')] ''command'' = JStr ''query''
   \<and> map_of [(''command'', JStr ''query'')] ''key'' = None
   \<and> process_request refusing lone (JObj [(''command'', JStr ''query'')]) = Raises AttributeError
   \<and> handle_request refusing lone (Some (JObj [(''command'', JStr ''query'')])) = Some (None, lone)
   \<and> map_of [(''command'', JStr ''update_predecessor''), (''node_id'', JInt 3),
              (''ip'', JStr ''10.0.0.3'')] ''port'' = None
   \<and> process_request refusing lone
        (JObj [(''command'', JStr ''update_predecessor''), (''node_id'', JInt 3),
               (''ip'', JStr ''10.0.0.3'')]) = Raises KeyError
   \<and> handle_request refusing lone
        (Some (JObj [(''command'', JStr ''update_predecessor''), (''node_id'', JInt 3),
                     (''ip'', JStr ''10.0.0.3'')])) = Some (None, lone)"
  using missing_field_drops_connection [of "[(''command'', JStr ''query'')]" refusing lone]
    missing_field_drops_connection [of "[(''command'', JStr ''update_predecessor''),
        (''node_id'', JInt 3), (''ip'', JStr ''10.0.0.3'')]" refusing lone]
  by (simp add: dict_get_def)

end
